theory Spec2Isabelle
  imports Complex_Main
begin

section \<open>Vertical structure of accretion discs: the solver of \<open>vs.py\<close>\<close>

text \<open>
  The embedding follows \<open>src/bin/vs.py\<close>. Python floats are modelled by the reals:
  \<open>x ** n\<close> with an integer exponent is \<open>x ^ n\<close>, \<open>x ** q\<close> with a float exponent is
  \<open>x powr q\<close> (which agrees with the float power on positive bases only; on a
  non-positive base the float operation gives \<open>nan\<close>, \<open>inf\<close> or a complex number, values
  the reals do not have), \<open>np.sqrt\<close> is \<open>sqrt\<close>, \<open>np.minimum\<close> is \<open>min\<close>. Rounding is
  not modelled. A NumPy division by zero gives \<open>inf\<close> or \<open>nan\<close> and raises nothing; the
  reals have no such value (a quotient by 0 is 0 in HOL), so the statements that depend
  on a quotient are made where its divisor is positive.

  The functions of SciPy (\<open>solve_ivp\<close>, \<open>brentq\<close>) and the constants of Astropy are not
  code of the repository: they are parameters of the model.
\<close>

subsection \<open>Module constants\<close>

text \<open>\<open>sigmaSB\<close>, \<open>R_gas\<close>, \<open>G\<close>, \<open>M_sun\<close> are read from \<open>astropy.constants\<close> (CGS values).\<close>

record constants =
  sigmaSB :: real
  R_gas :: real
  G :: real
  M_sun :: real

text \<open>The enumeration \<open>Vars\<close> indexes the four unknowns; a state vector \<open>y\<close> is the record
  of its four entries, so that \<open>P y\<close> is \<open>y[Vars.P]\<close>.\<close>

record vars =
  S :: real
  P :: real
  Q :: real
  T :: real

datatype error = ZeroDivisionError | AssertionError | IndexError | SciPyError string

datatype event = Print string | Breakpoint

text \<open>The two concrete classes; they differ in the opacity mixin only.\<close>

datatype vs_class = IdealKramersVerticalStructure | IdealBellLin1994VerticalStructure

subsection \<open>The solve session: attributes of \<open>BaseVerticalStructure\<close>\<close>

record session =
  cls :: vs_class
  mu :: real
  Mx :: real
  GM :: real
  alpha :: real
  r :: real
  F :: real
  omegaK :: real
  eps :: real
  Q_norm :: real
  Q0 :: real
  z0 :: real
  P_norm :: real
  T_norm :: real
  sigma_norm :: real
  Teff :: real

text \<open>The setter of the property \<open>z0\<close> (lines 106-111): it stores the new half-thickness and
  recomputes the three scale constants from it.\<close>

definition set_z0 :: "constants \<Rightarrow> real \<Rightarrow> session \<Rightarrow> session" where
  "set_z0 K z s =
     s\<lparr>z0 := z,
       P_norm := (4 / 3) * Q_norm s / (alpha s * z * omegaK s),
       T_norm := (omegaK s)\<^sup>2 * mu s * z\<^sup>2 / R_gas K,
       sigma_norm := 28 * Q_norm s / (3 * alpha s * z\<^sup>2 * (omegaK s) ^ 3)\<rparr>"

text \<open>\<open>z0_init\<close> (lines 290-292). The callers pass \<open>alpha\<close> as a Python float, and Python
  raises \<open>ZeroDivisionError\<close> for \<open>0.0 ** (-1 / 10)\<close>.\<close>

definition z0_init :: "constants \<Rightarrow> session \<Rightarrow> error + real" where
  "z0_init K s =
     (if alpha s = 0 then Inl ZeroDivisionError
      else Inr (r s * (2.86 / 10 ^ 7) * F s powr (3 / 20) * (Mx s / M_sun K) powr (- 9 / 20)
                * alpha s powr (- 1 / 10) * (r s / 10 ^ 10) powr (1 / 20)))"

text \<open>\<open>__init__\<close> (lines 87-100), with the optional arguments \<open>eps\<close> and \<open>mu\<close> passed
  explicitly. The attributes that the setter of \<open>z0\<close> and the last line assign do not
  exist before; the record holds 0 there until they are assigned.\<close>

definition init ::
  "constants \<Rightarrow> vs_class \<Rightarrow> real \<Rightarrow> real \<Rightarrow> real \<Rightarrow> real \<Rightarrow> real \<Rightarrow> real \<Rightarrow> error + session" where
  "init K c Mx' alpha' r' F' eps' mu' =
     (let omegaK' = sqrt (G K * Mx' / r' ^ 3);
          Q' = (3 / (8 * pi)) * F' * omegaK' / r'\<^sup>2;
          s = \<lparr>cls = c, mu = mu', Mx = Mx', GM = G K * Mx', alpha = alpha', r = r', F = F',
               omegaK = omegaK', eps = eps', Q_norm = Q', Q0 = Q',
               z0 = 0, P_norm = 0, T_norm = 0, sigma_norm = 0, Teff = 0\<rparr>
      in case z0_init K s of
           Inl e \<Rightarrow> Inl e
         | Inr z \<Rightarrow>
             let s' = set_z0 K z s
             in Inr (s'\<lparr>Teff := (Q0 s' / sigmaSB K) powr (1 / 4)\<rparr>))"

subsection \<open>Physics laws\<close>

definition law_of_viscosity :: "session \<Rightarrow> real \<Rightarrow> real" where
  "law_of_viscosity s Pv = alpha s * Pv"

record eos_temp =
  lnfree_e :: real

text \<open>\<open>IdealGasMixin.law_of_rho\<close>: \<open>law_of_rho\<close> is the call with \<open>full_output=False\<close>,
  \<open>law_of_rho_full\<close> the call with \<open>full_output=True\<close>.\<close>

definition law_of_rho :: "constants \<Rightarrow> session \<Rightarrow> real \<Rightarrow> real \<Rightarrow> real" where
  "law_of_rho K s Pv Tv = Pv * mu s / (R_gas K * Tv)"

definition law_of_rho_full :: "constants \<Rightarrow> session \<Rightarrow> real \<Rightarrow> real \<Rightarrow> real \<times> eos_temp" where
  "law_of_rho_full K s Pv Tv = (Pv * mu s / (R_gas K * Tv), \<lparr>lnfree_e = 0\<rparr>)"

text \<open>\<open>KramersOpacityMixin\<close>.\<close>

definition varkappa0 :: real where "varkappa0 = 5 * 10 ^ 24"
definition zeta :: nat where "zeta = 1"
definition gamma :: real where "gamma = - 7 / 2"

definition Kramers_law_of_opacity :: "real \<Rightarrow> real \<Rightarrow> real \<Rightarrow> real" where
  "Kramers_law_of_opacity rho' Tv lnfree_e' = varkappa0 * (rho' ^ zeta) * (Tv powr gamma)"

text \<open>\<open>BellLin1994TwoComponentOpacityMixin\<close>.\<close>

definition varkappa0_ff :: real where "varkappa0_ff = 1.5 * 10 ^ 20"
definition zeta_ff :: nat where "zeta_ff = 1"
definition gamma_ff :: real where "gamma_ff = - 5 / 2"
definition varkappa0_h :: real where "varkappa0_h = 1 / 10 ^ 36"
definition zeta_h :: real where "zeta_h = 1 / 3"
definition gamma_h :: nat where "gamma_h = 10"

definition opacity_h :: "real \<Rightarrow> real \<Rightarrow> real" where
  "opacity_h rho' Tv = varkappa0_h * (rho' powr zeta_h) * (Tv ^ gamma_h)"

definition opacity_ff :: "real \<Rightarrow> real \<Rightarrow> real" where
  "opacity_ff rho' Tv = varkappa0_ff * (rho' ^ zeta_ff) * (Tv powr gamma_ff)"

definition BellLin_law_of_opacity :: "real \<Rightarrow> real \<Rightarrow> real \<Rightarrow> real" where
  "BellLin_law_of_opacity rho' Tv lnfree_e' = min (opacity_h rho' Tv) (opacity_ff rho' Tv)"

text \<open>Method resolution: the opacity mixin of the session's class.\<close>

definition law_of_opacity :: "session \<Rightarrow> real \<Rightarrow> real \<Rightarrow> real \<Rightarrow> real" where
  "law_of_opacity s rho' Tv lnfree_e' =
     (case cls s of
        IdealKramersVerticalStructure \<Rightarrow> Kramers_law_of_opacity rho' Tv lnfree_e'
      | IdealBellLin1994VerticalStructure \<Rightarrow> BellLin_law_of_opacity rho' Tv lnfree_e')"

definition viscosity :: "session \<Rightarrow> vars \<Rightarrow> real" where
  "viscosity s y = law_of_viscosity s (P y * P_norm s)"

definition rho :: "constants \<Rightarrow> session \<Rightarrow> vars \<Rightarrow> real" where
  "rho K s y = law_of_rho K s (P y * P_norm s) (T y * T_norm s)"

definition rho_full :: "constants \<Rightarrow> session \<Rightarrow> vars \<Rightarrow> real \<times> eos_temp" where
  "rho_full K s y = law_of_rho_full K s (P y * P_norm s) (T y * T_norm s)"

definition opacity :: "constants \<Rightarrow> session \<Rightarrow> vars \<Rightarrow> real \<Rightarrow> real" where
  "opacity K s y lnfree_e' =
     (let rho' = rho K s y in law_of_opacity s rho' (T y * T_norm s) lnfree_e')"

subsection \<open>Photosphere and initial conditions\<close>

text \<open>The SciPy functions the solver calls. \<open>solve_ivp_RK45\<close> is the call of \<open>P_ph\<close> (one
  unknown, default method) and gives the row \<open>solution.y[0]\<close>; \<open>solve_ivp_RK23\<close> is the
  call of \<open>integrate\<close> and gives the columns of \<open>solution.y\<close>, one state per accepted point
  of \<open>t_eval\<close>, and \<open>solution.message\<close>; \<open>brentq\<close> is called with \<open>full_output=True\<close> on a
  function that assigns the session's \<open>z0\<close>, so it threads the session.\<close>

record 'r scipy =
  solve_ivp_RK45 :: "(real \<Rightarrow> real \<Rightarrow> real) \<Rightarrow> real \<times> real \<Rightarrow> real \<Rightarrow> real \<Rightarrow> error + real list"
  solve_ivp_RK23 ::
    "(real \<Rightarrow> vars \<Rightarrow> vars) \<Rightarrow> real \<times> real \<Rightarrow> vars \<Rightarrow> real list \<Rightarrow> real \<Rightarrow> error + vars list \<times> string"
  brentq ::
    "(real \<Rightarrow> session \<Rightarrow> error + real \<times> session) \<Rightarrow> real \<Rightarrow> real \<Rightarrow> session
       \<Rightarrow> error + (real \<times> 'r) \<times> session"

definition photospheric_pressure_equation :: "constants \<Rightarrow> session \<Rightarrow> real \<Rightarrow> real \<Rightarrow> real" where
  "photospheric_pressure_equation K s tau Pv =
     (let Tv = Teff s * (1 / 2 + 3 * tau / 4) powr (1 / 4);
          (rho', eos) = law_of_rho_full K s Pv Tv;
          varkappa = law_of_opacity s rho' Tv (lnfree_e eos)
      in z0 s * (omegaK s)\<^sup>2 / varkappa)"

definition P_ph :: "'r scipy \<Rightarrow> constants \<Rightarrow> session \<Rightarrow> error + real" where
  "P_ph sp K s =
     (case solve_ivp_RK45 sp (photospheric_pressure_equation K s) (0, 2 / 3)
             (1 / 10 ^ 7 * P_norm s) (eps s) of
        Inl e \<Rightarrow> Inl e
      | Inr ys \<Rightarrow> if ys = [] then Inl IndexError else Inr (last ys))"

definition Q_initial :: real where
  "Q_initial = 1"

definition initial :: "'r scipy \<Rightarrow> constants \<Rightarrow> session \<Rightarrow> error + vars" where
  "initial sp K s =
     (let Qi = Q_initial
      in case P_ph sp K s of
           Inl e \<Rightarrow> Inl e
         | Inr p \<Rightarrow>
             Inr \<lparr>S = 0, P = p / P_norm s, Q = Qi,
                  T = (Qi * Q_norm s / sigmaSB K) powr (1 / 4) / T_norm s\<rparr>)"

subsection \<open>Right-hand side of the interior system\<close>

definition dQdz :: "session \<Rightarrow> vars \<Rightarrow> real \<Rightarrow> real" where
  "dQdz s y t =
     (let w_r_phi = viscosity s y
      in - (3 / 2) * z0 s * omegaK s * w_r_phi / Q_norm s)"

text \<open>\<open>RadiativeTempGradient.dlnTdlnP\<close> (lines 331-343).\<close>

definition dlnTdlnP :: "constants \<Rightarrow> session \<Rightarrow> vars \<Rightarrow> real \<Rightarrow> real" where
  "dlnTdlnP K s y t =
     (let (rho', eos) = rho_full K s y;
          varkappa = opacity K s y (lnfree_e eos)
      in if t = 1
         then - dQdz s y t * (P y / T y ^ 4) * 3 * varkappa
                * (Q_norm s * P_norm s / T_norm s ^ 4) / (16 * sigmaSB K * z0 s * (omegaK s)\<^sup>2)
         else let dTdz = (\<bar>Q y\<bar> / T y ^ 3) * 3 * varkappa * rho' * z0 s * Q_norm s
                           / (16 * sigmaSB K * T_norm s ^ 4);
                  dPdz = rho' * (1 - t) * (omegaK s)\<^sup>2 * (z0 s)\<^sup>2 / P_norm s
              in (P y / T y) * (dTdz / dPdz))"

text \<open>\<open>dydt\<close> (lines 174-200). The function prints and calls \<open>breakpoint()\<close>, which hands
  control to the debugger; when the debugger resumes, the function goes on. The events are
  returned beside the derivative.\<close>

definition dydt :: "constants \<Rightarrow> session \<Rightarrow> real \<Rightarrow> vars \<Rightarrow> event list \<times> vars" where
  "dydt K s t y =
     (let out = (if T y < 0 \<or> S y < 0 then [Print ''S or T < 0'', Breakpoint] else []);
          (rho', eos) = rho_full K s y;
          dS = 2 * rho' * z0 s / sigma_norm s;
          dP = rho' * (1 - t) * (omegaK s)\<^sup>2 * (z0 s)\<^sup>2 / P_norm s;
          dQ = dQdz s y t;
          grad = dlnTdlnP K s y t;
          dT = grad * dP * T y / P y
      in (out, \<lparr>S = dS, P = dP, Q = dQ, T = dT\<rparr>))"

subsection \<open>Integration and shooting\<close>

text \<open>\<open>integrate\<close> (lines 202-222), with assertions enabled; \<open>t[0]\<close> on an empty sequence
  raises \<open>IndexError\<close>. The integrator is given the derivative that \<open>dydt\<close> returns; what
  \<open>dydt\<close> prints happens at the calls the integrator makes.\<close>

definition integrate ::
  "'r scipy \<Rightarrow> constants \<Rightarrow> session \<Rightarrow> real list \<Rightarrow> error + vars list \<times> string" where
  "integrate sp K s t =
     (case t of
        [] \<Rightarrow> Inl IndexError
      | t0 # _ \<Rightarrow>
          if t0 \<noteq> 0 then Inl AssertionError
          else case initial sp K s of
                 Inl e \<Rightarrow> Inl e
               | Inr y0 \<Rightarrow>
                   solve_ivp_RK23 sp (\<lambda>t' y. snd (dydt K s t' y)) (t0, last t) y0 t (eps s))"

text \<open>\<open>y_c\<close> (lines 241-243): the last column of the solution on \<open>[0, 1]\<close>; indexing a
  solution without columns raises \<open>IndexError\<close>.\<close>

definition y_c :: "'r scipy \<Rightarrow> constants \<Rightarrow> session \<Rightarrow> error + vars" where
  "y_c sp K s =
     (case integrate sp K s [0, 1] of
        Inl e \<Rightarrow> Inl e
      | Inr (ys, msg) \<Rightarrow> if ys = [] then Inl IndexError else Inr (last ys))"

text \<open>The local function \<open>dq\<close> of \<open>fit\<close> (lines 305-308): it assigns \<open>z0\<close> and returns the
  midplane flux.\<close>

definition dq :: "'r scipy \<Rightarrow> constants \<Rightarrow> real \<Rightarrow> session \<Rightarrow> error + real \<times> session" where
  "dq sp K z0r s =
     (let s' = set_z0 K (z0r * r s) s
      in case y_c sp K s' of
           Inl e \<Rightarrow> Inl e
         | Inr yc \<Rightarrow> Inr (Q yc, s'))"

text \<open>The loop \<open>while True\<close> of \<open>fit\<close> (lines 317-320). It has no exit but the sign change
  (or an exception of \<open>dq\<close>): not returning is \<open>None\<close>.\<close>

partial_function (option) bracket ::
  "(real \<Rightarrow> session \<Rightarrow> error + real \<times> session) \<Rightarrow> real \<Rightarrow> real \<Rightarrow> real \<Rightarrow> session
     \<Rightarrow> (error + real \<times> session) option" where
  "bracket f sign_dq factor z0r s =
     (let z0r' = z0r * factor
      in case f z0r' s of
           Inl e \<Rightarrow> Some (Inl e)
         | Inr (q, s') \<Rightarrow>
             if sign_dq * q < 0 then Some (Inr (z0r', s'))
             else bracket f sign_dq factor z0r' s')"

declare bracket.simps [code]

text \<open>\<open>fit\<close> (lines 294-323).\<close>

definition fit :: "'r scipy \<Rightarrow> constants \<Rightarrow> session \<Rightarrow> (error + (real \<times> 'r) \<times> session) option" where
  "fit sp K s =
     (let z0r = z0 s / r s
      in case dq sp K z0r s of
           Inl e \<Rightarrow> Some (Inl e)
         | Inr (sign_dq, s1) \<Rightarrow>
             let factor = (if sign_dq > 0 then 2 else 1 / 2)
             in case bracket (dq sp K) sign_dq factor z0r s1 of
                  None \<Rightarrow> None
                | Some (Inl e) \<Rightarrow> Some (Inl e)
                | Some (Inr (z0r', s2)) \<Rightarrow> Some (brentq sp (dq sp K) z0r' (z0r' / factor) s2))"

subsection \<open>Example inputs\<close>

text \<open>The CGS values of Astropy's default constants (CODATA 2018).\<close>

definition astropy_cgs :: constants where
  "astropy_cgs = \<lparr>sigmaSB = 5.6703744191844314 / 10 ^ 5, R_gas = 83144626.1815324,
                   G = 6.6743 / 10 ^ 8, M_sun = 1.988409870698051 * 10 ^ 33\<rparr>"

text \<open>A session as the constructor makes it: 1.5 solar masses, \<open>alpha = 0.3\<close>,
  \<open>r = 7e10\<close> cm, \<open>F = 1e34\<close>, default \<open>eps\<close> and \<open>mu\<close>.\<close>

definition example_session :: session where
  "example_session =
     projr (init astropy_cgs IdealKramersVerticalStructure (1.5 * M_sun astropy_cgs) 0.3
              (7 * 10 ^ 10) (10 ^ 34) (1 / 10 ^ 5) 0.6)"

text \<open>A session with small rational attributes, for evaluating the shooting loop by hand.\<close>

definition unit_session :: session where
  "unit_session =
     set_z0 astropy_cgs 1
       \<lparr>cls = IdealKramersVerticalStructure, mu = 0.6, Mx = 1, GM = 1, alpha = 1 / 2, r = 1,
        F = 1, omegaK = 1, eps = 1 / 10 ^ 5, Q_norm = 1, Q0 = 1,
        z0 = 0, P_norm = 0, T_norm = 0, sigma_norm = 0, Teff = 1\<rparr>"

text \<open>A stand-in for SciPy that reports pressure 1 at the photosphere, integrates the
  interior with one Euler step over the whole interval and lets \<open>brentq\<close> evaluate the
  midpoint of the bracket.\<close>

definition stub_scipy :: "bool scipy" where
  "stub_scipy =
     \<lparr>solve_ivp_RK45 = (\<lambda>f (a, b) y0 rtol. Inr [y0, 1]),
      solve_ivp_RK23 = (\<lambda>f (a, b) y0 t_eval rtol.
         Inr ([y0, \<lparr>S = S y0 + (b - a) * S (f a y0), P = P y0 + (b - a) * P (f a y0),
                    Q = Q y0 + (b - a) * Q (f a y0), T = T y0 + (b - a) * T (f a y0)\<rparr>],
              ''The solver successfully reached the end of the integration interval.'')),
      brentq = (\<lambda>f a b st.
         case f ((a + b) / 2) st of
           Inl e \<Rightarrow> Inl e
         | Inr (q, st') \<Rightarrow> Inr (((a + b) / 2, True), st'))\<rparr>"

text \<open>A stand-in for a SciPy integrator that fails after the initial point: the solution
  holds the initial state only.\<close>

definition stalled_scipy :: "bool scipy" where
  "stalled_scipy =
     \<lparr>solve_ivp_RK45 = (\<lambda>f (a, b) y0 rtol. Inr [y0]),
      solve_ivp_RK23 = (\<lambda>f (a, b) y0 t_eval rtol.
         Inr ([y0], ''Required step size is less than spacing between numbers.'')),
      brentq = (\<lambda>f a b st. Inl (SciPyError ''f(a) and f(b) must have different signs''))\<rparr>"

subsection \<open>Auxiliary definitions for the statements\<close>

text \<open>The two branches of \<open>dlnTdlnP\<close>, named so that statements can refer to them: the
  closed form of the \<open>if\<close> branch and the general formula of the \<open>else\<close> branch.\<close>

definition dlnTdlnP_rad_closed :: "constants \<Rightarrow> session \<Rightarrow> vars \<Rightarrow> real" where
  "dlnTdlnP_rad_closed K s y =
     - dQdz s y 1 * (P y / T y ^ 4) * 3 * opacity K s y 0
       * (Q_norm s * P_norm s / T_norm s ^ 4) / (16 * sigmaSB K * z0 s * (omegaK s)\<^sup>2)"

definition dlnTdlnP_rad_general :: "constants \<Rightarrow> session \<Rightarrow> vars \<Rightarrow> real \<Rightarrow> real" where
  "dlnTdlnP_rad_general K s y t =
     (P y / T y) *
       ((\<bar>Q y\<bar> / T y ^ 3) * 3 * opacity K s y 0 * rho K s y * z0 s * Q_norm s
          / (16 * sigmaSB K * T_norm s ^ 4)
        / (rho K s y * (1 - t) * (omegaK s)\<^sup>2 * (z0 s)\<^sup>2 / P_norm s))"

text \<open>A state with the surface values \<open>S = 0\<close> and \<open>Q = 1\<close> and unit pressure and
  temperature.\<close>

definition surface_state :: vars where
  "surface_state = \<lparr>S = 0, P = 1, Q = 1, T = 1\<rparr>"

text \<open>A column whose pressure, flux and temperature are constant and whose mass coordinate
  grows at the rate that \<open>dydt\<close> gives for that state, in the example session with
  \<open>z0 = 1e8\<close>.\<close>

definition linear_column :: "real \<Rightarrow> vars" where
  "linear_column x =
     \<lparr>S = S (snd (dydt astropy_cgs (set_z0 astropy_cgs (10 ^ 8) example_session) 0
                     surface_state)) * x,
      P = 1, Q = 1, T = 1\<rparr>"

section \<open>Properties\<close>

subsection \<open>Basic facts\<close>

lemma rho_full_eq: "rho_full K s y = (rho K s y, \<lparr>lnfree_e = 0\<rparr>)"
  by (simp add: rho_full_def rho_def law_of_rho_full_def law_of_rho_def)

lemma init_fields:
  assumes "init K c Mx' a rad Fv e m = Inr s"
  shows "cls s = c \<and> mu s = m \<and> Mx s = Mx' \<and> GM s = G K * Mx' \<and> alpha s = a \<and> r s = rad
       \<and> F s = Fv \<and> eps s = e
       \<and> omegaK s = sqrt (G K * Mx' / rad ^ 3)
       \<and> Q_norm s = (3 / (8 * pi)) * Fv * sqrt (G K * Mx' / rad ^ 3) / rad\<^sup>2
       \<and> Q0 s = Q_norm s
       \<and> Teff s = (Q_norm s / sigmaSB K) powr (1 / 4)"
  using assms by (auto simp add: init_def z0_init_def set_z0_def Let_def split: if_splits)

text \<open>A fresh session holds the closed-form estimate of \<open>z_0\<close> and the scale constants
  that belong to it.\<close>

lemma init_z0:
  assumes "init K c Mx' a rad Fv e m = Inr s"
  shows "z0 s = rad * (2.86 / 10 ^ 7) * Fv powr (3 / 20) * (Mx' / M_sun K) powr (- 9 / 20)
                  * a powr (- 1 / 10) * (rad / 10 ^ 10) powr (1 / 20)
       \<and> P_norm s = (4 / 3) * Q_norm s / (alpha s * z0 s * omegaK s)
       \<and> T_norm s = (omegaK s)\<^sup>2 * mu s * (z0 s)\<^sup>2 / R_gas K
       \<and> sigma_norm s = 28 * Q_norm s / (3 * alpha s * (z0 s)\<^sup>2 * (omegaK s) ^ 3)"
  using assms by (auto simp add: init_def z0_init_def set_z0_def Let_def split: if_splits)

lemma init_positive:
  assumes "init K c Mx' a rad Fv e m = Inr s"
    and "0 < G K" "0 < Mx'" "0 < rad" "0 < Fv"
  shows "0 < omegaK s \<and> 0 < Q_norm s"
proof -
  have om: "omegaK s = sqrt (G K * Mx' / rad ^ 3)"
    and qn: "Q_norm s = (3 / (8 * pi)) * Fv * sqrt (G K * Mx' / rad ^ 3) / rad\<^sup>2"
    using init_fields [OF assms(1)] by simp_all
  have "0 < G K * Mx' / rad ^ 3"
    using assms(2-4) by simp
  then have "0 < sqrt (G K * Mx' / rad ^ 3)"
    by simp
  then show ?thesis
    using assms(4,5) by (simp add: om qn)
qed

lemma set_z0_positive:
  assumes "0 < alpha s" "0 < omegaK s" "0 < Q_norm s" "0 < z"
  shows "0 < sigma_norm (set_z0 K z s) \<and> 0 < P_norm (set_z0 K z s) \<and> z0 (set_z0 K z s) = z"
  using assms by (simp add: set_z0_def)

lemma fold_set_z0_frame:
  "alpha (fold (set_z0 K) zs s) = alpha s \<and> mu (fold (set_z0 K) zs s) = mu s
   \<and> Q_norm (fold (set_z0 K) zs s) = Q_norm s \<and> omegaK (fold (set_z0 K) zs s) = omegaK s"
  by (induction zs arbitrary: s) (simp_all add: set_z0_def)

lemma example_session_init:
  "init astropy_cgs IdealKramersVerticalStructure (1.5 * M_sun astropy_cgs) 0.3
     (7 * 10 ^ 10) (10 ^ 34) (1 / 10 ^ 5) 0.6 = Inr example_session"
  by (simp add: example_session_def init_def z0_init_def Let_def)

lemma example_session_positive:
  "0 < alpha example_session \<and> 0 < mu example_session \<and> 0 < omegaK example_session
   \<and> 0 < Q_norm example_session \<and> 0 < z0 example_session \<and> 0 < T_norm example_session"
proof -
  note i = example_session_init
  have K: "0 < G astropy_cgs" "0 < R_gas astropy_cgs" "0 < M_sun astropy_cgs"
    by (simp_all add: astropy_cgs_def)
  have f: "alpha example_session = 0.3" "mu example_session = 0.6"
    using init_fields [OF i] by simp_all
  have p: "0 < omegaK example_session" "0 < Q_norm example_session"
    using init_positive [OF i] K by simp_all
  have z: "0 < z0 example_session"
    using K by (simp add: init_z0 [OF i])
  have "0 < T_norm example_session"
    using p z K by (simp add: init_z0 [OF i] f)
  with f p z show ?thesis
    by simp
qed

subsection \<open>The constructor\<close>

text \<open>
  C5, as the specification states it, fails: the constructor validates nothing. With
  \<open>alpha = 2\<close>, outside the interval (0, 1), and the other inputs of the example, it
  returns a session and no error.
\<close>

theorem init_rejects_invalid_counterexample:
  "\<not> isl (init astropy_cgs IdealKramersVerticalStructure (1.5 * M_sun astropy_cgs) 2
             (7 * 10 ^ 10) (10 ^ 34) (1 / 10 ^ 5) 0.6)"
  by (simp add: init_def z0_init_def Let_def)

text \<open>
  C5, amended. The constructor checks none of its inputs and has no error of its own for
  them. Every \<open>alpha\<close> other than 0, within (0, 1) or not, and any mass and radius give a
  session that holds the inputs as they were passed. Only \<open>alpha = 0\<close> fails, with the
  \<open>ZeroDivisionError\<close> of the power \<open>alpha ** (-1 / 10)\<close> in the initial estimate of
  \<open>z_0\<close>; the constructor calls no integrator, so this is before any integration.
\<close>

theorem init_validates_nothing:
  "(a = 0 \<longrightarrow> init K c Mx' a rad Fv e m = Inl ZeroDivisionError)
   \<and> (a \<noteq> 0 \<longrightarrow> (\<exists>s. init K c Mx' a rad Fv e m = Inr s \<and> Mx s = Mx' \<and> alpha s = a \<and> r s = rad
                        \<and> F s = Fv \<and> eps s = e \<and> mu s = m))"
  by (simp add: init_def z0_init_def set_z0_def Let_def)

theorem init_validates_nothing_witness:
  "init astropy_cgs IdealKramersVerticalStructure (1.5 * M_sun astropy_cgs) 0
     (7 * 10 ^ 10) (10 ^ 34) (1 / 10 ^ 5) 0.6 = Inl ZeroDivisionError
   \<and> (\<exists>s. init astropy_cgs IdealKramersVerticalStructure (1.5 * M_sun astropy_cgs) 2
            (7 * 10 ^ 10) (10 ^ 34) (1 / 10 ^ 5) 0.6 = Inr s \<and> alpha s = 2)"
  using init_validates_nothing [of 0 astropy_cgs IdealKramersVerticalStructure
      "1.5 * M_sun astropy_cgs" "7 * 10 ^ 10" "10 ^ 34" "1 / 10 ^ 5" "0.6"]
    init_validates_nothing [of 2 astropy_cgs IdealKramersVerticalStructure
      "1.5 * M_sun astropy_cgs" "7 * 10 ^ 10" "10 ^ 34" "1 / 10 ^ 5" "0.6"]
  by auto

subsection \<open>The setter of \<open>z0\<close>\<close>

text \<open>
  C6. Take two sessions constructed from the same mass, \<open>alpha\<close>, radius, flux and
  molecular weight, each followed by any sequence of assignments to \<open>z0\<close>. Assigning the
  same \<open>z\<close> to both stores \<open>z\<close> and gives \<open>P_norm\<close>, \<open>T_norm\<close> and \<open>sigma_norm\<close> by the
  setter's formulas in \<open>z\<close> and the unchanged attributes, equal in the two sessions; the
  assignment leaves \<open>Teff\<close>, \<open>Q_norm\<close>, \<open>Q0\<close>, \<open>omegaK\<close> and every physical input as they
  were.
\<close>

theorem z0_setter_rescales:
  assumes "init K c Mx' a rad Fv e m = Inr s1"
    and "init K c' Mx' a rad Fv e' m = Inr s2"
  shows "let t1 = fold (set_z0 K) zs1 s1; t2 = fold (set_z0 K) zs2 s2;
             t1' = set_z0 K z t1; t2' = set_z0 K z t2
         in z0 t1' = z
          \<and> P_norm t1' = (4 / 3) * Q_norm t1 / (alpha t1 * z * omegaK t1)
          \<and> T_norm t1' = (omegaK t1)\<^sup>2 * mu t1 * z\<^sup>2 / R_gas K
          \<and> sigma_norm t1' = 28 * Q_norm t1 / (3 * alpha t1 * z\<^sup>2 * (omegaK t1) ^ 3)
          \<and> P_norm t1' = P_norm t2' \<and> T_norm t1' = T_norm t2' \<and> sigma_norm t1' = sigma_norm t2'
          \<and> Teff t1' = Teff t1 \<and> Q_norm t1' = Q_norm t1 \<and> Q0 t1' = Q0 t1
          \<and> omegaK t1' = omegaK t1 \<and> cls t1' = cls t1 \<and> mu t1' = mu t1 \<and> Mx t1' = Mx t1
          \<and> GM t1' = GM t1 \<and> alpha t1' = alpha t1 \<and> r t1' = r t1 \<and> F t1' = F t1
          \<and> eps t1' = eps t1"
proof -
  have "alpha s1 = alpha s2" "mu s1 = mu s2" "Q_norm s1 = Q_norm s2" "omegaK s1 = omegaK s2"
    using init_fields [OF assms(1)] init_fields [OF assms(2)] by simp_all
  then have "alpha (fold (set_z0 K) zs1 s1) = alpha (fold (set_z0 K) zs2 s2)"
    "mu (fold (set_z0 K) zs1 s1) = mu (fold (set_z0 K) zs2 s2)"
    "Q_norm (fold (set_z0 K) zs1 s1) = Q_norm (fold (set_z0 K) zs2 s2)"
    "omegaK (fold (set_z0 K) zs1 s1) = omegaK (fold (set_z0 K) zs2 s2)"
    by (simp_all add: fold_set_z0_frame)
  then show ?thesis
    by (simp add: Let_def set_z0_def)
qed

theorem z0_setter_rescales_witness:
  "P_norm (set_z0 astropy_cgs 5 (fold (set_z0 astropy_cgs) [1, 2] example_session)) =
   P_norm (set_z0 astropy_cgs 5 (fold (set_z0 astropy_cgs) [3] example_session))
   \<and> Teff (set_z0 astropy_cgs 5 (fold (set_z0 astropy_cgs) [1, 2] example_session)) =
     Teff (fold (set_z0 astropy_cgs) [1, 2] example_session)"
  using z0_setter_rescales [OF example_session_init example_session_init, of "[1, 2]" "[3]" 5]
  by (simp add: Let_def)

subsection \<open>Opacity laws\<close>

text \<open>
  C10. Both opacity variants, the Kramers power law and the two-component minimum law of
  Bell and Lin (1994), ignore the argument \<open>lnfree_e\<close>: for positive density and
  temperature, two calls of \<open>law_of_opacity\<close> that differ in \<open>lnfree_e\<close> only return the
  same opacity, whichever class the session has.
\<close>

theorem law_of_opacity_ignores_lnfree_e:
  "0 < rho' \<Longrightarrow> 0 < Tv \<Longrightarrow>
     Kramers_law_of_opacity rho' Tv a = Kramers_law_of_opacity rho' Tv b
   \<and> BellLin_law_of_opacity rho' Tv a = BellLin_law_of_opacity rho' Tv b
   \<and> law_of_opacity s rho' Tv a = law_of_opacity s rho' Tv b"
  by (simp add: Kramers_law_of_opacity_def BellLin_law_of_opacity_def law_of_opacity_def
      split: vs_class.split)

theorem law_of_opacity_ignores_lnfree_e_witness:
  "(0::real) < 1 \<and> Kramers_law_of_opacity 1 1 0 = Kramers_law_of_opacity 1 1 5
   \<and> BellLin_law_of_opacity 1 1 0 = BellLin_law_of_opacity 1 1 5
   \<and> law_of_opacity unit_session 1 1 0 = law_of_opacity unit_session 1 1 5"
  using law_of_opacity_ignores_lnfree_e [of 1 1 0 5 unit_session] by simp

lemma opacity_positive:
  assumes "0 < rho'" "0 < Tv"
  shows "0 < law_of_opacity s rho' Tv l"
  using assms
  by (simp add: law_of_opacity_def Kramers_law_of_opacity_def BellLin_law_of_opacity_def
      opacity_h_def opacity_ff_def varkappa0_def varkappa0_h_def varkappa0_ff_def
      split: vs_class.split)

subsection \<open>The radiative temperature gradient\<close>

text \<open>In a session whose \<open>P_norm\<close> is the value the setter gives, at a state with positive
  pressure and temperature, the closed form is positive and is the general formula at
  \<open>t = 0\<close> with \<open>|Q|\<close> replaced by \<open>2 P\<close>.\<close>

lemma closed_form_twice_general:
  assumes al: "0 < alpha s" and om: "0 < omegaK s" and qn: "0 < Q_norm s" and z: "0 < z0 s"
    and pn: "P_norm s = (4 / 3) * Q_norm s / (alpha s * z0 s * omegaK s)"
    and tn: "0 < T_norm s" and m: "0 < mu s" and sg: "0 < sigmaSB K" and rg: "0 < R_gas K"
    and py: "0 < P y" and ty: "0 < T y"
  shows "\<bar>Q y\<bar> * dlnTdlnP_rad_closed K s y = 2 * P y * dlnTdlnP_rad_general K s y 0"
    and "0 < dlnTdlnP_rad_closed K s y"
proof -
  have pnp: "0 < P_norm s"
    using al om qn z by (simp add: pn)
  have rp: "0 < rho K s y"
    using pnp tn m rg py ty by (simp add: rho_def law_of_rho_def)
  have kp: "0 < opacity K s y 0"
    using rp ty tn by (simp add: opacity_def Let_def opacity_positive)
  define kap where "kap = opacity K s y 0"
  define rh where "rh = rho K s y"
  have dq: "- dQdz s y 1 = 2 * P y"
    using al om qn z by (simp add: dQdz_def viscosity_def law_of_viscosity_def pn Let_def)
  have c: "dlnTdlnP_rad_closed K s y =
      2 * P y * (P y / T y ^ 4) * 3 * kap * (Q_norm s * P_norm s / T_norm s ^ 4)
        / (16 * sigmaSB K * z0 s * (omegaK s)\<^sup>2)"
    unfolding dlnTdlnP_rad_closed_def dq kap_def ..
  have g: "dlnTdlnP_rad_general K s y 0 =
      (P y / T y) * ((\<bar>Q y\<bar> / T y ^ 3) * 3 * kap * rh * z0 s * Q_norm s
          / (16 * sigmaSB K * T_norm s ^ 4)
        / (rh * (omegaK s)\<^sup>2 * (z0 s)\<^sup>2 / P_norm s))"
    unfolding dlnTdlnP_rad_general_def kap_def rh_def by simp
  have nz: "rh \<noteq> 0" "z0 s \<noteq> 0" "omegaK s \<noteq> 0" "T y \<noteq> 0" "T_norm s \<noteq> 0" "sigmaSB K \<noteq> 0"
    "P_norm s \<noteq> 0"
    using rp z om ty tn sg pnp by (simp_all add: rh_def)
  show "\<bar>Q y\<bar> * dlnTdlnP_rad_closed K s y = 2 * P y * dlnTdlnP_rad_general K s y 0"
    unfolding c g using nz by (simp add: field_simps power2_eq_square power3_eq_cube power4_eq_xxxx)
  have "0 < kap"
    using kp by (simp add: kap_def)
  then show "0 < dlnTdlnP_rad_closed K s y"
    unfolding c using py ty qn pnp tn sg z om by simp
qed

text \<open>
  C2, as the specification states it, fails: at the surface, \<open>t = 0\<close>, the gradient is not
  the closed form. In the example session, at the state with \<open>Q = 1\<close> and unit pressure
  and temperature, the value of \<open>dlnTdlnP\<close> at \<open>t = 0\<close> is the general formula, half of
  the closed form.
\<close>

theorem dlnTdlnP_surface_counterexample:
  "dlnTdlnP astropy_cgs example_session surface_state 0 \<noteq>
     dlnTdlnP_rad_closed astropy_cgs example_session surface_state"
proof -
  have gen: "dlnTdlnP astropy_cgs example_session surface_state 0 =
      dlnTdlnP_rad_general astropy_cgs example_session surface_state 0"
    by (simp add: dlnTdlnP_def dlnTdlnP_rad_general_def rho_full_eq Let_def)
  have K: "0 < sigmaSB astropy_cgs" "0 < R_gas astropy_cgs"
    by (simp_all add: astropy_cgs_def)
  have y: "0 < P surface_state" "0 < T surface_state" "\<bar>Q surface_state\<bar> = 1"
    "P surface_state = 1"
    by (simp_all add: surface_state_def)
  note pos = example_session_positive
  note pn = init_z0 [OF example_session_init, THEN conjunct2, THEN conjunct1]
  have tw: "\<bar>Q surface_state\<bar> * dlnTdlnP_rad_closed astropy_cgs example_session surface_state =
      2 * P surface_state * dlnTdlnP_rad_general astropy_cgs example_session surface_state 0"
    and cp: "0 < dlnTdlnP_rad_closed astropy_cgs example_session surface_state"
    using closed_form_twice_general [of example_session astropy_cgs surface_state] pos pn K y
    by simp_all
  from tw cp show ?thesis
    unfolding gen y by simp
qed

text \<open>
  C2, amended. The radiative gradient uses its special-cased closed form exactly at the
  midplane boundary of the integration coordinate, \<open>t = 1\<close>, and the general formula at
  every other value of \<open>t\<close>, the surface \<open>t = 0\<close> included. The boundary \<open>t = 1\<close> is where
  the general formula is singular: the pressure derivative it divides by is 0 there.
\<close>

theorem dlnTdlnP_midplane_special_case:
  "dlnTdlnP K s y 1 = dlnTdlnP_rad_closed K s y
   \<and> (t \<noteq> 1 \<longrightarrow> dlnTdlnP K s y t = dlnTdlnP_rad_general K s y t)
   \<and> P (snd (dydt K s 1 y)) = 0"
  by (simp add: dlnTdlnP_def dlnTdlnP_rad_closed_def dlnTdlnP_rad_general_def rho_full_eq
      dydt_def Let_def)

theorem dlnTdlnP_midplane_special_case_witness:
  "dlnTdlnP astropy_cgs example_session surface_state 1 =
     dlnTdlnP_rad_closed astropy_cgs example_session surface_state
   \<and> dlnTdlnP astropy_cgs example_session surface_state 0 =
     dlnTdlnP_rad_general astropy_cgs example_session surface_state 0"
  using dlnTdlnP_midplane_special_case [of astropy_cgs example_session surface_state 0]
  by simp

subsection \<open>The right-hand side\<close>

text \<open>
  C3, as the specification states it, fails: a negative component raises no domain error.
  In the example session, at a state with \<open>S = -1\<close>, \<open>dydt\<close> prints, stops at the
  breakpoint and then returns a derivative, the one it returns for \<open>S = 0\<close>.
\<close>

theorem dydt_domain_error_counterexample:
  "dydt astropy_cgs example_session 0 \<lparr>S = - 1, P = 1, Q = 1, T = 1\<rparr> =
     ([Print ''S or T < 0'', Breakpoint],
      snd (dydt astropy_cgs example_session 0 surface_state))"
  by (simp add: dydt_def surface_state_def rho_full_def law_of_rho_full_def dQdz_def
      viscosity_def dlnTdlnP_def opacity_def rho_def Let_def)

text \<open>
  C3, amended. If \<open>S\<close> or \<open>T\<close> is negative when the right-hand side is evaluated, \<open>dydt\<close>
  prints \<open>S or T < 0\<close> and calls \<open>breakpoint()\<close>, which hands control to the debugger; it
  does so in no other case. It raises no domain error, and once the debugger resumes it
  returns the derivative that the same formulas give for the negative state.
\<close>

theorem dydt_breakpoint_and_continue:
  "(T y < 0 \<or> S y < 0 \<longrightarrow> fst (dydt K s t y) = [Print ''S or T < 0'', Breakpoint])
   \<and> (\<not> (T y < 0 \<or> S y < 0) \<longrightarrow> fst (dydt K s t y) = [])
   \<and> snd (dydt K s t y) =
       \<lparr>S = 2 * rho K s y * z0 s / sigma_norm s,
        P = rho K s y * (1 - t) * (omegaK s)\<^sup>2 * (z0 s)\<^sup>2 / P_norm s,
        Q = dQdz s y t,
        T = dlnTdlnP K s y t * (rho K s y * (1 - t) * (omegaK s)\<^sup>2 * (z0 s)\<^sup>2 / P_norm s)
              * T y / P y\<rparr>"
  by (simp add: dydt_def rho_full_eq Let_def)

theorem dydt_breakpoint_and_continue_witness:
  "fst (dydt astropy_cgs example_session 0 \<lparr>S = - 1, P = 1, Q = 1, T = 1\<rparr>) =
     [Print ''S or T < 0'', Breakpoint]
   \<and> fst (dydt astropy_cgs example_session 0 surface_state) = []"
  using dydt_breakpoint_and_continue
      [of "\<lparr>S = - 1, P = 1, Q = 1, T = 1\<rparr>" astropy_cgs example_session 0]
    dydt_breakpoint_and_continue [of surface_state astropy_cgs example_session 0]
  by (simp add: surface_state_def)

text \<open>
  C8. Take a session constructed from positive mass, \<open>alpha\<close>, radius and flux (and a
  positive gravitational constant) and then given any positive \<open>z0\<close>, as \<open>fit\<close> does
  before each integration. Let \<open>y\<close> be a column on \<open>[0, 1]\<close> whose mass coordinate has the
  derivative that \<open>dydt\<close> gives, and along which the density is non-negative. Then \<open>S\<close>
  is non-decreasing from the surface to the midplane: its derivative is
  \<open>2 rho z0 / sigma_norm\<close>, which is non-negative.
\<close>

theorem mass_coordinate_nondecreasing:
  fixes y :: "real \<Rightarrow> vars"
  assumes inputs: "0 < G K" "0 < Mx'" "0 < a" "0 < rad" "0 < Fv"
    and fresh: "init K c Mx' a rad Fv e m = Inr s0"
    and z: "0 < z"
    and ode: "\<And>t. 0 \<le> t \<Longrightarrow> t \<le> 1 \<Longrightarrow>
        ((\<lambda>x. S (y x)) has_real_derivative S (snd (dydt K (set_z0 K z s0) t (y t)))) (at t)"
    and dens: "\<And>t. 0 \<le> t \<Longrightarrow> t \<le> 1 \<Longrightarrow> 0 \<le> rho K (set_z0 K z s0) (y t)"
    and range: "0 \<le> t1" "t1 \<le> t2" "t2 \<le> 1"
  shows "S (y t1) \<le> S (y t2)
       \<and> S (snd (dydt K (set_z0 K z s0) t1 (y t1))) =
           2 * rho K (set_z0 K z s0) (y t1) * z0 (set_z0 K z s0) / sigma_norm (set_z0 K z s0)
       \<and> 0 \<le> S (snd (dydt K (set_z0 K z s0) t1 (y t1)))"
proof -
  let ?s = "set_z0 K z s0"
  have "alpha s0 = a"
    using init_fields [OF fresh] by simp
  with inputs init_positive [OF fresh] have "0 < alpha s0" "0 < omegaK s0" "0 < Q_norm s0"
    by simp_all
  from set_z0_positive [OF this z] have sg: "0 < sigma_norm ?s" and z0: "z0 ?s = z"
    by simp_all
  have dS: "S (snd (dydt K ?s t (y t))) = 2 * rho K ?s (y t) * z0 ?s / sigma_norm ?s" for t
    by (simp add: dydt_def rho_full_eq Let_def)
  have nonneg: "0 \<le> S (snd (dydt K ?s t (y t)))" if "0 \<le> t" "t \<le> 1" for t
    unfolding dS using dens [OF that] sg z by (simp add: z0)
  have "S (y t1) \<le> S (y t2)"
  proof (rule DERIV_nonneg_imp_nondecreasing [of t1 t2 "\<lambda>x. S (y x)"])
    show "t1 \<le> t2"
      by (rule range)
    fix x
    assume "t1 \<le> x" "x \<le> t2"
    with range have x: "0 \<le> x" "x \<le> 1"
      by simp_all
    from ode [OF x] nonneg [OF x]
    show "\<exists>d. ((\<lambda>x. S (y x)) has_real_derivative d) (at x) \<and> 0 \<le> d"
      by blast
  qed
  moreover have "0 \<le> t1" "t1 \<le> 1"
    using range by simp_all
  ultimately show ?thesis
    using dS [of t1] nonneg [of t1] by simp
qed

theorem mass_coordinate_nondecreasing_witness:
  "S (linear_column 0) \<le> S (linear_column 1)"
proof -
  let ?s = "set_z0 astropy_cgs (10 ^ 8) example_session"
  have K: "0 < G astropy_cgs" "0 < R_gas astropy_cgs"
    by (simp_all add: astropy_cgs_def)
  have rate: "S (snd (dydt astropy_cgs ?s t (linear_column t))) =
      S (snd (dydt astropy_cgs ?s 0 surface_state))" for t
    by (simp add: dydt_def rho_full_def law_of_rho_full_def linear_column_def surface_state_def
        Let_def)
  have ode: "((\<lambda>x. S (linear_column x)) has_real_derivative
      S (snd (dydt astropy_cgs ?s t (linear_column t)))) (at t)" for t
    unfolding rate by (auto simp add: linear_column_def intro!: derivative_eq_intros)
  note pos = example_session_positive
  have pn: "0 < P_norm ?s" "0 < T_norm ?s"
    using pos K by (simp_all add: set_z0_def)
  have dens: "0 \<le> rho astropy_cgs ?s (linear_column t)" for t
    using pn pos K by (simp add: rho_def law_of_rho_def linear_column_def set_z0_def)
  show ?thesis
    using mass_coordinate_nondecreasing [of astropy_cgs "1.5 * M_sun astropy_cgs" "0.3"
        "7 * 10 ^ 10" "10 ^ 34" IdealKramersVerticalStructure "1 / 10 ^ 5" "0.6" example_session
        "10 ^ 8" linear_column 0 1, OF _ _ _ _ _ example_session_init _ ode dens]
    by (simp add: astropy_cgs_def)
qed

subsection \<open>Initial conditions and integration\<close>

text \<open>
  C7. When the photospheric integration returns a non-empty row, the initial state of the
  interior integration is \<open>S = 0\<close>, \<open>P\<close> the last value of that row divided by \<open>P_norm\<close>,
  \<open>Q = 1\<close> and \<open>T = (Q_norm / sigmaSB) ** (1/4) / T_norm\<close>. The row is the solution of the
  initial-value problem on \<open>[0, 2/3]\<close> that starts from \<open>1e-7 P_norm\<close>, with tolerance
  \<open>eps\<close>, whose right-hand side at \<open>(tau, P)\<close> is \<open>z0 omegaK\<^sup>2 / varkappa\<close>, the opacity
  and the density taken from the laws at the temperature \<open>Teff (1/2 + 3 tau/4) ** (1/4)\<close>.
\<close>

theorem initial_conditions_exact:
  assumes "solve_ivp_RK45 sp (photospheric_pressure_equation K s) (0, 2 / 3)
             (1 / 10 ^ 7 * P_norm s) (eps s) = Inr ys"
    and "ys \<noteq> []"
  shows "initial sp K s =
           Inr \<lparr>S = 0, P = last ys / P_norm s, Q = 1,
                T = (Q_norm s / sigmaSB K) powr (1 / 4) / T_norm s\<rparr>
       \<and> photospheric_pressure_equation K s tau Pv =
           z0 s * (omegaK s)\<^sup>2 /
             law_of_opacity s (law_of_rho K s Pv (Teff s * (1 / 2 + 3 * tau / 4) powr (1 / 4)))
               (Teff s * (1 / 2 + 3 * tau / 4) powr (1 / 4)) 0"
  using assms
  by (simp add: initial_def P_ph_def Q_initial_def photospheric_pressure_equation_def
      law_of_rho_full_def law_of_rho_def Let_def)

theorem initial_conditions_exact_witness:
  "initial stub_scipy astropy_cgs unit_session =
     Inr \<lparr>S = 0, P = 1 / P_norm unit_session, Q = 1,
          T = (Q_norm unit_session / sigmaSB astropy_cgs) powr (1 / 4) / T_norm unit_session\<rparr>"
  using initial_conditions_exact [of stub_scipy astropy_cgs unit_session
      "[1 / 10 ^ 7 * P_norm unit_session, 1]"]
  by (simp add: stub_scipy_def)

text \<open>
  C9. \<open>integrate\<close> requires its grid to start at the surface. For every non-empty grid
  whose first point is not 0 it fails with \<open>AssertionError\<close>, whatever the integrators
  are, so before either of them is called; for every grid whose first point is 0 the
  assertion passes and the result is that of the integrator, called on \<open>dydt\<close>, the span
  from 0 to the last point, the initial state, the grid and \<open>eps\<close>.
\<close>

theorem integrate_asserts_surface_start:
  "t \<noteq> [] \<Longrightarrow>
     (hd t \<noteq> 0 \<longrightarrow> integrate sp K s t = Inl AssertionError)
   \<and> (hd t = 0 \<longrightarrow> integrate sp K s t =
         (case initial sp K s of
            Inl e \<Rightarrow> Inl e
          | Inr y0 \<Rightarrow> solve_ivp_RK23 sp (\<lambda>t' y. snd (dydt K s t' y)) (0, last t) y0 t (eps s)))"
  by (cases t) (auto simp add: integrate_def split: sum.splits)

theorem integrate_asserts_surface_start_witness:
  "integrate stub_scipy astropy_cgs unit_session [1, 2] = Inl AssertionError
   \<and> integrate stalled_scipy astropy_cgs unit_session [0, 1] =
       Inr ([\<lparr>S = 0, P = 1 / 10 ^ 7, Q = 1,
               T = (1 / sigmaSB astropy_cgs) powr (1 / 4) / T_norm unit_session\<rparr>],
            ''Required step size is less than spacing between numbers.'')"
  using integrate_asserts_surface_start [of "[1, 2]" stub_scipy astropy_cgs unit_session]
    integrate_asserts_surface_start [of "[0, 1]" stalled_scipy astropy_cgs unit_session]
  by (simp add: initial_def P_ph_def stalled_scipy_def Q_initial_def unit_session_def set_z0_def)

subsection \<open>The shooting loop\<close>

text \<open>\<open>dq\<close> overwrites everything an earlier assignment of \<open>z0\<close> wrote, so the residual at
  a trial value does not depend on the trials before it.\<close>

lemma dq_set_z0: "dq sp K z (set_z0 K u s) = dq sp K z s"
  by (simp add: dq_def set_z0_def)

lemma bracket_step:
  assumes "dq sp K (z * fac) s = Inr (q, s')"
  shows "bracket (dq sp K) sd fac z s =
           (if sd * q < 0 then Some (Inr (z * fac, s')) else bracket (dq sp K) sd fac (z * fac) s')"
  using assms by (subst bracket.simps) (simp add: Let_def)

text \<open>The loop stops at the first trial whose residual has the sign opposite to
  \<open>sign_dq\<close>.\<close>

lemma bracket_found:
  assumes "\<And>k. k \<le> n \<Longrightarrow>
             dq sp K (z * fac ^ Suc k) s = Inr (q k, set_z0 K (z * fac ^ Suc k * r s) s)"
    and "sd * q n < 0"
    and "\<And>k. k < n \<Longrightarrow> \<not> sd * q k < 0"
  shows "bracket (dq sp K) sd fac z (set_z0 K u s) =
           Some (Inr (z * fac ^ Suc n, set_z0 K (z * fac ^ Suc n * r s) s))"
  using assms
proof (induction n arbitrary: z u q)
  case 0
  have "dq sp K (z * fac) (set_z0 K u s) = Inr (q 0, set_z0 K (z * fac * r s) s)"
    using "0.prems"(1) [of 0] by (simp add: dq_set_z0)
  then show ?case
    using "0.prems"(2) by (simp add: bracket_step)
next
  case (Suc n)
  have step: "dq sp K (z * fac) (set_z0 K u s) = Inr (q 0, set_z0 K (z * fac * r s) s)"
    using Suc.prems(1) [of 0] by (simp add: dq_set_z0)
  have nolt: "\<not> sd * q 0 < 0"
    using Suc.prems(3) [of 0] by simp
  have ev: "dq sp K (z * fac * fac ^ Suc k) s =
        Inr ((q \<circ> Suc) k, set_z0 K (z * fac * fac ^ Suc k * r s) s)" if "k \<le> n" for k
    using Suc.prems(1) [of "Suc k"] that by (simp add: mult.assoc)
  have rest: "bracket (dq sp K) sd fac (z * fac) (set_z0 K (z * fac * r s) s) =
      Some (Inr (z * fac * fac ^ Suc n, set_z0 K (z * fac * fac ^ Suc n * r s) s))"
  proof (rule Suc.IH [of "z * fac" "q \<circ> Suc"])
    show "\<And>k. k \<le> n \<Longrightarrow> dq sp K (z * fac * fac ^ Suc k) s =
        Inr ((q \<circ> Suc) k, set_z0 K (z * fac * fac ^ Suc k * r s) s)"
      by (rule ev)
    show "sd * (q \<circ> Suc) n < 0"
      using Suc.prems(2) by simp
    show "\<And>k. k < n \<Longrightarrow> \<not> sd * (q \<circ> Suc) k < 0"
      using Suc.prems(3) by simp
  qed
  show ?case
    using step nolt rest by (simp add: bracket_step mult.assoc)
qed

text \<open>If no trial has a residual of the opposite sign, the loop returns nothing.\<close>

lemma bracket_never_aux:
  assumes run: "bracket f0 sd0 fac0 z0' st0 = Some res0"
    and ev: "\<And>k. \<exists>q. dq sp K (zz * fac ^ Suc k) s =
                 Inr (q, set_z0 K (zz * fac ^ Suc k * r s) s) \<and> \<not> sd * q < 0"
  shows "\<not> (f0 = dq sp K \<and> sd0 = sd \<and> fac0 = fac
            \<and> (\<exists>k u. z0' = zz * fac ^ k \<and> st0 = set_z0 K u s))"
proof (rule bracket.raw_induct
    [where P = "\<lambda>f' sd' fac' z st res. \<not> (f' = dq sp K \<and> sd' = sd \<and> fac' = fac
            \<and> (\<exists>k u. z = zz * fac ^ k \<and> st = set_z0 K u s))", OF _ run])
  fix bracket' f' sd' fac' z st res
  assume IH: "\<And>f' sd' fac' z st res. bracket' f' sd' fac' z st = Some res \<Longrightarrow>
      \<not> (f' = dq sp K \<and> sd' = sd \<and> fac' = fac
            \<and> (\<exists>k u. z = zz * fac ^ k \<and> st = set_z0 K u s))"
    and body: "(let z0r' = z * fac'
       in case f' z0r' st of Inl e \<Rightarrow> Some (Inl e)
          | Inr (q, s') \<Rightarrow> if sd' * q < 0 then Some (Inr (z0r', s'))
                           else bracket' f' sd' fac' z0r' s') = Some res"
  show "\<not> (f' = dq sp K \<and> sd' = sd \<and> fac' = fac
            \<and> (\<exists>k u. z = zz * fac ^ k \<and> st = set_z0 K u s))"
  proof
    assume inv: "f' = dq sp K \<and> sd' = sd \<and> fac' = fac
            \<and> (\<exists>k u. z = zz * fac ^ k \<and> st = set_z0 K u s)"
    then obtain k u where z: "z = zz * fac ^ k" and st: "st = set_z0 K u s"
      by blast
    from ev [of k] obtain q where
      q: "dq sp K (zz * fac ^ Suc k) s = Inr (q, set_z0 K (zz * fac ^ Suc k * r s) s)"
      and nolt: "\<not> sd * q < 0"
      by blast
    from inv have f': "f' = dq sp K" and sd': "sd' = sd" and fac': "fac' = fac"
      by simp_all
    have zf: "z * fac' = zz * fac ^ Suc k"
      by (simp add: z fac')
    have "f' (z * fac') st = Inr (q, set_z0 K (zz * fac ^ Suc k * r s) s)"
      unfolding zf f' st dq_set_z0 by (rule q)
    with body nolt
    have "bracket' f' sd' fac' (zz * fac ^ Suc k) (set_z0 K (zz * fac ^ Suc k * r s) s) = Some res"
      unfolding zf by (simp add: Let_def sd')
    from IH [OF this] inv show False
      by blast
  qed
qed

lemma bracket_never:
  assumes "\<And>k. dq sp K (z * fac ^ Suc k) s = Inr (q k, set_z0 K (z * fac ^ Suc k * r s) s)"
    and "\<And>k. \<not> sd * q k < 0"
  shows "bracket (dq sp K) sd fac z (set_z0 K u s) = None"
proof (cases "bracket (dq sp K) sd fac z (set_z0 K u s)")
  case None
  then show ?thesis .
next
  case (Some res)
  have ev: "\<exists>q'. dq sp K (z * fac ^ Suc k) s =
        Inr (q', set_z0 K (z * fac ^ Suc k * r s) s) \<and> \<not> sd * q' < 0" for k
    using assms by blast
  have "z = z * fac ^ 0 \<and> set_z0 K u s = set_z0 K u s"
    by simp
  then have "\<exists>k u'. z = z * fac ^ k \<and> set_z0 K u s = set_z0 K u' s"
    by blast
  with bracket_never_aux [OF Some ev] have False
    by blast
  then show ?thesis ..
qed


lemma fit_unfold:
  assumes "dq sp K (z0 s / r s) s = Inr (q0, set_z0 K (z0 s / r s * r s) s)"
  shows "fit sp K s =
    (case bracket (dq sp K) q0 (if 0 < q0 then 2 else 1 / 2) (z0 s / r s)
            (set_z0 K (z0 s / r s * r s) s) of
       None \<Rightarrow> None
     | Some (Inl e) \<Rightarrow> Some (Inl e)
     | Some (Inr (z0r', s2)) \<Rightarrow>
         Some (brentq sp (dq sp K) z0r' (z0r' / (if 0 < q0 then 2 else 1 / 2)) s2))"
  using assms by (simp add: fit_def Let_def)

lemma bracket_sign:
  fixes a b c :: real
  assumes "a * c < 0" and "\<not> a * b < 0"
  shows "b * c \<le> 0"
proof (cases "0 < a")
  case True
  with assms have "c < 0" "0 \<le> b"
    by (auto simp add: mult_less_0_iff zero_le_mult_iff not_less)
  then show ?thesis
    by (simp add: mult_nonneg_nonpos)
next
  case False
  with assms have "a < 0" "0 < c"
    by (auto simp add: mult_less_0_iff)
  with assms have "b \<le> 0"
    by (auto simp add: mult_less_0_iff not_less zero_le_mult_iff)
  with \<open>0 < c\<close> show ?thesis
    by (simp add: mult_nonpos_nonneg)
qed

text \<open>
  C1. \<open>fit\<close> evaluates the residual \<open>q 0\<close> at the current estimate \<open>z0 / r\<close> (in a fresh
  session the closed-form estimate, by \<open>init_z0\<close>), takes the factor 2 if that residual is
  positive and 1/2 if it is negative, and multiplies the trial by the factor until the
  residual \<open>q (n + 1)\<close> of a trial has the sign opposite to the first; the last two trials
  bracket a root, since their residuals have a product that is not positive. What \<open>fit\<close>
  returns is the result of \<open>brentq\<close> on \<open>dq\<close> between the last trial and the one before
  it: the refined \<open>z0 / r\<close> and the diagnostic of Brent's method. The session of every
  trial is the original one with \<open>z0\<close> assigned.
\<close>

theorem fit_shooting_algorithm:
  fixes q :: "nat \<Rightarrow> real"
  assumes fac: "fac = (if 0 < q 0 then 2 else 1 / 2)"
    and evals: "\<And>k. k \<le> Suc n \<Longrightarrow>
        dq sp K (z0 s / r s * fac ^ k) s = Inr (q k, set_z0 K (z0 s / r s * fac ^ k * r s) s)"
    and change: "q 0 * q (Suc n) < 0"
    and first: "\<And>k. k < n \<Longrightarrow> \<not> q 0 * q (Suc k) < 0"
  shows "fit sp K s =
           Some (brentq sp (dq sp K) (z0 s / r s * fac ^ Suc n) (z0 s / r s * fac ^ Suc n / fac)
                   (set_z0 K (z0 s / r s * fac ^ Suc n * r s) s))
       \<and> z0 s / r s * fac ^ Suc n / fac = z0 s / r s * fac ^ n
       \<and> q n * q (Suc n) \<le> 0
       \<and> (0 < q 0 \<longrightarrow> fac = 2) \<and> (q 0 < 0 \<longrightarrow> fac = 1 / 2)"
proof -
  have fac0: "fac \<noteq> 0"
    by (simp add: fac)
  have first_eval: "dq sp K (z0 s / r s) s = Inr (q 0, set_z0 K (z0 s / r s * r s) s)"
    using evals [of 0] by simp
  have "bracket (dq sp K) (q 0) fac (z0 s / r s) (set_z0 K (z0 s / r s * r s) s) =
          Some (Inr (z0 s / r s * fac ^ Suc n, set_z0 K (z0 s / r s * fac ^ Suc n * r s) s))"
  proof (rule bracket_found [where q = "q \<circ> Suc"])
    show "dq sp K (z0 s / r s * fac ^ Suc k) s =
        Inr ((q \<circ> Suc) k, set_z0 K (z0 s / r s * fac ^ Suc k * r s) s)" if "k \<le> n" for k
    proof -
      from that have "Suc k \<le> Suc n"
        by simp
      from evals [OF this] show ?thesis
        by (simp only: comp_apply)
    qed
    show "q 0 * (q \<circ> Suc) n < 0"
      using change by simp
    show "\<And>k. k < n \<Longrightarrow> \<not> q 0 * (q \<circ> Suc) k < 0"
      using first by simp
  qed
  then have run: "fit sp K s =
      Some (brentq sp (dq sp K) (z0 s / r s * fac ^ Suc n) (z0 s / r s * fac ^ Suc n / fac)
              (set_z0 K (z0 s / r s * fac ^ Suc n * r s) s))"
    unfolding fit_unfold [OF first_eval] fac [symmetric] by simp
  have prev: "z0 s / r s * fac ^ Suc n / fac = z0 s / r s * fac ^ n"
    using fac0 by simp
  have "\<not> q 0 * q n < 0"
  proof (cases n)
    case 0
    from change have "q 0 \<noteq> 0"
      by auto
    then have "\<not> q 0 * q 0 < 0"
      by (simp add: not_less)
    then show ?thesis
      using 0 by simp
  next
    case (Suc m)
    then show ?thesis
      using first [of m] by simp
  qed
  with change have brk: "q n * q (Suc n) \<le> 0"
    by (rule bracket_sign)
  from run prev brk show ?thesis
    by (simp add: fac)
qed

theorem fit_shooting_algorithm_witness:
  "fit stub_scipy astropy_cgs unit_session =
     Some (brentq stub_scipy (dq stub_scipy astropy_cgs) 2 1 (set_z0 astropy_cgs 2 unit_session))"
proof -
  define q :: "nat \<Rightarrow> real" where "q = (\<lambda>k. if k = 0 then 1 / 4 else - 1 / 2)"
  have z1: "z0 unit_session = 1"
    by (simp add: unit_session_def set_z0_def)
  have fac: "(2::real) = (if 0 < q 0 then 2 else 1 / 2)"
    by (simp add: q_def)
  have d0: "dq stub_scipy astropy_cgs 1 unit_session =
      Inr (1 / 4, set_z0 astropy_cgs 1 unit_session)"
    by (simp add: dq_def y_c_def integrate_def initial_def P_ph_def stub_scipy_def dydt_def
        dQdz_def viscosity_def law_of_viscosity_def Q_initial_def unit_session_def set_z0_def
        Let_def split_beta)
  have d1: "dq stub_scipy astropy_cgs 2 unit_session =
      Inr (- 1 / 2, set_z0 astropy_cgs 2 unit_session)"
    by (simp add: dq_def y_c_def integrate_def initial_def P_ph_def stub_scipy_def dydt_def
        dQdz_def viscosity_def law_of_viscosity_def Q_initial_def unit_session_def set_z0_def
        Let_def split_beta)
  have r1: "r unit_session = 1"
    by (simp add: unit_session_def set_z0_def)
  have evals: "dq stub_scipy astropy_cgs (z0 unit_session / r unit_session * 2 ^ k) unit_session =
      Inr (q k, set_z0 astropy_cgs (z0 unit_session / r unit_session * 2 ^ k * r unit_session)
                  unit_session)" if "k \<le> Suc 0" for k
  proof (cases k)
    case 0
    then show ?thesis
      using d0 by (simp add: z1 r1 q_def)
  next
    case (Suc m)
    with that have "k = 1"
      by simp
    then show ?thesis
      using d1 by (simp add: z1 r1 q_def)
  qed
  have change: "q 0 * q (Suc 0) < 0"
    by (simp add: q_def)
  have first: "\<not> q 0 * q (Suc k) < 0" if "k < 0" for k
    using that by simp
  show ?thesis
    using fit_shooting_algorithm [of 2 q 0 stub_scipy astropy_cgs unit_session,
        OF fac evals change first]
    by (simp add: z1 r1)
qed

text \<open>
  C4, amended. The expansion of the bracket has no budget and \<open>fit\<close> has no failure of
  its own to report: when every trial can be evaluated, \<open>fit\<close> returns if and only if
  some trial has a residual of the sign opposite to the first one, and otherwise it
  expands forever.
\<close>

theorem fit_bracketing_unbounded:
  fixes q :: "nat \<Rightarrow> real"
  assumes fac: "fac = (if 0 < q 0 then 2 else 1 / 2)"
    and evals: "\<And>k. dq sp K (z0 s / r s * fac ^ k) s =
                  Inr (q k, set_z0 K (z0 s / r s * fac ^ k * r s) s)"
  shows "(fit sp K s = None) = (\<forall>k. \<not> q 0 * q (Suc k) < 0)"
proof
  have first_eval: "dq sp K (z0 s / r s) s = Inr (q 0, set_z0 K (z0 s / r s * r s) s)"
    using evals [of 0] by simp
  {
    assume none: "fit sp K s = None"
    show "\<forall>k. \<not> q 0 * q (Suc k) < 0"
    proof (rule ccontr)
      assume "\<not> (\<forall>k. \<not> q 0 * q (Suc k) < 0)"
      then have "\<exists>k. q 0 * q (Suc k) < 0"
        by simp
      then obtain n where n: "q 0 * q (Suc n) < 0" and least: "\<forall>k<n. \<not> q 0 * q (Suc k) < 0"
        using exists_least_iff [of "\<lambda>k. q 0 * q (Suc k) < 0"] by blast
      have "bracket (dq sp K) (q 0) fac (z0 s / r s) (set_z0 K (z0 s / r s * r s) s) =
          Some (Inr (z0 s / r s * fac ^ Suc n, set_z0 K (z0 s / r s * fac ^ Suc n * r s) s))"
      proof (rule bracket_found [where q = "q \<circ> Suc"])
        show "dq sp K (z0 s / r s * fac ^ Suc k) s =
            Inr ((q \<circ> Suc) k, set_z0 K (z0 s / r s * fac ^ Suc k * r s) s)" if "k \<le> n" for k
          using evals [of "Suc k"] by (simp only: comp_apply)
        show "q 0 * (q \<circ> Suc) n < 0"
          using n by simp
        show "\<And>k. k < n \<Longrightarrow> \<not> q 0 * (q \<circ> Suc) k < 0"
          using least by simp
      qed
      then have "fit sp K s \<noteq> None"
        unfolding fit_unfold [OF first_eval] fac [symmetric] by simp
      with none show False
        by simp
    qed
  }
  {
    assume never: "\<forall>k. \<not> q 0 * q (Suc k) < 0"
    have "bracket (dq sp K) (q 0) fac (z0 s / r s) (set_z0 K (z0 s / r s * r s) s) = None"
    proof (rule bracket_never [where q = "q \<circ> Suc"])
      show "dq sp K (z0 s / r s * fac ^ Suc k) s =
          Inr ((q \<circ> Suc) k, set_z0 K (z0 s / r s * fac ^ Suc k * r s) s)" for k
        using evals [of "Suc k"] by (simp only: comp_apply)
      show "\<And>k. \<not> q 0 * (q \<circ> Suc) k < 0"
        using never by simp
    qed
    then show "fit sp K s = None"
      unfolding fit_unfold [OF first_eval] fac [symmetric] by simp
  }
qed

lemma dq_stalled:
  "dq stalled_scipy K z s = Inr (1, set_z0 K (z * r s) s)"
  by (simp add: dq_def y_c_def integrate_def initial_def P_ph_def stalled_scipy_def
      Q_initial_def Let_def)

theorem fit_bracketing_unbounded_witness:
  "fit stalled_scipy astropy_cgs unit_session = None"
  using fit_bracketing_unbounded [of 2 "\<lambda>k. 1" stalled_scipy astropy_cgs unit_session]
  by (simp add: dq_stalled)

text \<open>
  C4, as the specification states it, fails: with an integrator that stops after the
  initial point the midplane flux of every trial is the initial flux 1, no sign change
  is ever found, and \<open>fit\<close> on the example session does not return, so it reports no
  failure of the bracketing.
\<close>

theorem fit_bracketing_budget_counterexample:
  "fit stalled_scipy astropy_cgs example_session = None"
proof -
  have "bracket (dq stalled_scipy astropy_cgs) 1 2 (z0 example_session / r example_session)
          (set_z0 astropy_cgs (z0 example_session / r example_session * r example_session)
             example_session) = None"
    by (rule bracket_never [where q = "\<lambda>k. 1"]) (simp_all add: dq_stalled)
  then show ?thesis
    unfolding fit_unfold [OF dq_stalled] by simp
qed

end
